theory Spec2Isabelle
  imports Main "HOL-Library.AList" "HOL-Library.Word"
begin

section \<open>The message dispatcher of the unpacker module (unpacker/cpp/module.cc)\<close>

text \<open>
  The development embeds \<^verbatim>\<open>NaclArchiveInstance\<close> of \<^verbatim>\<open>unpacker/cpp/module.cc\<close>: the
  handler that receives a message from JavaScript, decodes its envelope and routes it to
  the \<^verbatim>\<open>Volume\<close> registered under the message's file system id.

  The handler is sequential code over three pieces of state: the registry
  \<^verbatim>\<open>volumes_\<close> (a \<^verbatim>\<open>std::map<std::string, Volume*>\<close>), the \<^verbatim>\<open>Volume\<close> objects on the C++
  heap that the registry points to, and the messages handed to \<^verbatim>\<open>PostMessage\<close>. Each
  handler is a function from the state before to either the state in which it returns
  or a fault (an assertion that aborts, or undefined behaviour) together with the state
  in which the fault occurs.
\<close>

subsection \<open>Values of the Pepper API\<close>

text \<open>
  The Pepper C++ API (ppapi/cpp) is a library outside the repository; the part of it that
  module.cc calls is modelled as the library documents it.

  \<^verbatim>\<open>pp::Var\<close>, restricted to the kinds the handler tests for. \<^verbatim>\<open>VarUndefined\<close> is what
  \<^verbatim>\<open>VarDictionary::Get\<close> returns for a missing key. Booleans, doubles, objects, arrays
  and resources are left out: they fail every \<^verbatim>\<open>is_*\<close> test made in module.cc, as
  \<^verbatim>\<open>VarUndefined\<close> and \<^verbatim>\<open>VarNull\<close> do.
\<close>

datatype pp_var =
    VarUndefined
  | VarNull
  | VarInt "32 word"
  | VarString string
  | VarArrayBuffer "8 word list"
  | VarDictionary "(string \<times> pp_var) list"

fun is_dictionary :: "pp_var \<Rightarrow> bool" where
  "is_dictionary (VarDictionary _) = True"
| "is_dictionary _ = False"

fun is_int :: "pp_var \<Rightarrow> bool" where
  "is_int (VarInt _) = True"
| "is_int _ = False"

fun is_string :: "pp_var \<Rightarrow> bool" where
  "is_string (VarString _) = True"
| "is_string _ = False"

fun is_array_buffer :: "pp_var \<Rightarrow> bool" where
  "is_array_buffer (VarArrayBuffer _) = True"
| "is_array_buffer _ = False"

text \<open>\<^verbatim>\<open>Var::AsInt\<close> and \<^verbatim>\<open>Var::AsString\<close> return 0 and the empty string on a value of
  another kind. (On a double, which is left out here, \<^verbatim>\<open>AsInt\<close> truncates.)\<close>

fun AsInt :: "pp_var \<Rightarrow> 32 word" where
  "AsInt (VarInt i) = i"
| "AsInt _ = 0"

fun AsString :: "pp_var \<Rightarrow> string" where
  "AsString (VarString s) = s"
| "AsString _ = []"

text \<open>The converting constructors \<^verbatim>\<open>pp::VarDictionary(const Var&)\<close> and
  \<^verbatim>\<open>pp::VarArrayBuffer(const Var&)\<close> keep a value of the right kind and become null
  otherwise.\<close>

definition VarDictionary_from :: "pp_var \<Rightarrow> pp_var" where
  "VarDictionary_from v = (if is_dictionary v then v else VarNull)"

definition VarArrayBuffer_from :: "pp_var \<Rightarrow> pp_var" where
  "VarArrayBuffer_from v = (if is_array_buffer v then v else VarNull)"

text \<open>\<^verbatim>\<open>VarDictionary::Get\<close>: the value stored under the key, undefined when there is
  none.\<close>

fun Get :: "pp_var \<Rightarrow> string \<Rightarrow> pp_var" where
  "Get (VarDictionary entries) key =
     (case map_of entries key of Some v \<Rightarrow> v | None \<Rightarrow> VarUndefined)"
| "Get _ key = VarUndefined"

subsection \<open>What module.cc takes from request.h and volume.h\<close>

text \<open>The labels of the \<^verbatim>\<open>switch\<close> in \<^verbatim>\<open>HandleMessage\<close>, in the order of the source.\<close>

datatype Operation =
    READ_METADATA
  | READ_CHUNK_DONE
  | READ_CHUNK_ERROR
  | OPEN_FILE
  | CLOSE_FILE
  | READ_FILE
  | CLOSE_VOLUME

text \<open>
  request.h is not among the sources. Its constants and its helper are parameters of the
  model: the dictionary keys \<^verbatim>\<open>request::key::k*\<close>, the integer value of each operation
  (\<open>op_code\<close>) and \<^verbatim>\<open>request::GetInt64FromString\<close>, which reads a 64-bit integer from the
  string stored under a key.
\<close>

record request_h =
  kOperation :: string
  kFileSystemId :: string
  kRequestId :: string
  kArchiveSize :: string
  kChunkBuffer :: string
  kOffset :: string
  kFilePath :: string
  kOpenRequestId :: string
  kLength :: string
  op_code :: "Operation \<Rightarrow> 32 word"
  GetInt64FromString :: "pp_var \<Rightarrow> string \<Rightarrow> 64 word"

text \<open>
  The messages posted to JavaScript are the dictionaries built by the
  \<^verbatim>\<open>request::Create*\<close> functions of request.h; a message is represented by the call
  that builds it.
\<close>

datatype js_message =
    CreateFileSystemError string string string
  | CreateReadChunkRequest string string "64 word" nat
  | CreateReadMetadataDoneResponse string string pp_var
  | CreateOpenFileDoneResponse string string
  | CreateCloseFileDoneResponse string string string
  | CreateReadFileDoneResponse string string pp_var bool

text \<open>
  Modelled from the spec: the class \<^verbatim>\<open>Volume\<close> (volume.h and volume.cc are not among the
  sources). A \<^verbatim>\<open>Volume\<close> is constructed with the instance handle, its file system id and
  a pointer to the message sender, so a method can change the Volume's own state and post
  messages through the sender, and it cannot reach the registry. Each method is a
  parameter: given the Volume's state and the arguments module.cc passes, it returns the
  Volume's new state and the messages it posts during the call, in order. Creating a
  Volume "does not itself touch the transport" (spec 4.1), so the constructor and
  \<^verbatim>\<open>Init\<close> post nothing; \<^verbatim>\<open>Init\<close> returns whether it succeeded. Destroying a Volume
  sends no message either (spec 5: "no explicit cancel message is sent to the
  transport"; spec 6: CloseVolume has no outbound message), so the destructor has no
  effect outside the object that is freed.
\<close>

record 'v volume_h =
  Volume_new :: "string \<Rightarrow> 'v"
  Volume_Init :: "'v \<Rightarrow> bool \<times> 'v"
  Volume_ReadMetadata :: "'v \<Rightarrow> string \<Rightarrow> 64 word \<Rightarrow> 'v \<times> js_message list"
  Volume_ReadChunkDone :: "'v \<Rightarrow> string \<Rightarrow> pp_var \<Rightarrow> 64 word \<Rightarrow> 'v \<times> js_message list"
  Volume_ReadChunkError :: "'v \<Rightarrow> string \<Rightarrow> 'v \<times> js_message list"
  Volume_OpenFile :: "'v \<Rightarrow> string \<Rightarrow> string \<Rightarrow> 64 word \<Rightarrow> 'v \<times> js_message list"
  Volume_CloseFile :: "'v \<Rightarrow> string \<Rightarrow> string \<Rightarrow> 'v \<times> js_message list"
  Volume_ReadFile :: "'v \<Rightarrow> string \<Rightarrow> pp_var \<Rightarrow> 'v \<times> js_message list"

text \<open>
  A build of the module: whether \<^verbatim>\<open>NDEBUG\<close> is defined (then \<^verbatim>\<open>PP_DCHECK\<close> and
  \<^verbatim>\<open>PP_NOTREACHED\<close>, which are \<^verbatim>\<open>assert\<close>, compile to nothing), and the two headers.
\<close>

record 'v build =
  NDEBUG :: bool
  rq :: request_h
  vol :: "'v volume_h"

subsection \<open>State and faults\<close>

text \<open>
  \<open>volumes\<close> is the member \<^verbatim>\<open>volumes_\<close>: the entries of the \<^verbatim>\<open>std::map\<close>, a key with the
  address of its \<^verbatim>\<open>Volume\<close>. \<open>heap\<close> holds the \<^verbatim>\<open>Volume\<close> objects that are allocated and
  not yet deleted, by address. \<open>posted\<close> is every message given to
  \<^verbatim>\<open>pp::Instance::PostMessage\<close> so far, oldest first.
\<close>

record 'v state =
  volumes :: "(string \<times> nat) list"
  heap :: "(nat \<times> 'v) list"
  posted :: "js_message list"

text \<open>
  What ends the defined run of a handler before it returns: an assertion that fails and
  aborts the process, or an operation whose behaviour C++ leaves undefined (dereferencing
  \<^verbatim>\<open>volumes_.end()\<close>, using or deleting an object that is not allocated).

  A handler yields \<open>Inr s'\<close> when it returns in state \<open>s'\<close>, and \<open>Inl (f, s')\<close> when the
  fault \<open>f\<close> occurs in state \<open>s'\<close>: \<open>s'\<close> holds everything the handler did up to that
  point (what it posted, and the registry and the heap as it left them). After
  \<open>AssertionFailed\<close> the process is gone. After \<open>UndefinedBehaviour\<close> nothing is defined:
  the model says what was done up to the undefined operation and nothing about what the
  program does from there.
\<close>

datatype fault = AssertionFailed | UndefinedBehaviour

type_synonym 'v result = "(fault \<times> 'v state) + 'v state"

text \<open>
  \<^verbatim>\<open>PP_DCHECK(a)\<close> is \<^verbatim>\<open>assert(a)\<close> and \<^verbatim>\<open>PP_NOTREACHED()\<close> is \<^verbatim>\<open>assert(false)\<close>
  (ppapi/cpp/logging.h); \<open>s\<close> is the state in which the check runs and \<open>rest\<close> is the
  code that follows the check.
\<close>

definition PP_DCHECK ::
  "'v build \<Rightarrow> 'v state \<Rightarrow> bool \<Rightarrow> (fault \<times> 'v state) + 'a \<Rightarrow>
     (fault \<times> 'v state) + 'a" where
  "PP_DCHECK c s a rest = (if \<not> NDEBUG c \<and> \<not> a then Inl (AssertionFailed, s) else rest)"

definition PP_NOTREACHED ::
  "'v build \<Rightarrow> 'v state \<Rightarrow> (fault \<times> 'v state) + 'a \<Rightarrow>
     (fault \<times> 'v state) + 'a" where
  "PP_NOTREACHED c s rest = PP_DCHECK c s False rest"

text \<open>\<^verbatim>\<open>new\<close> returns an address that is not in use (and is not null, 0). Running out
  of memory is not modelled.\<close>

definition new_addr :: "(nat \<times> 'v) list \<Rightarrow> nat" where
  "new_addr h = Suc (fold max (map fst h) 0)"

text \<open>\<^verbatim>\<open>delete p\<close>: frees the object at \<open>p\<close>; deleting an address that holds no object is
  undefined.\<close>

definition delete_Volume :: "nat \<Rightarrow> 'v state \<Rightarrow> 'v result" where
  "delete_Volume p s =
     (case map_of (heap s) p of
        None \<Rightarrow> Inl (UndefinedBehaviour, s)
      | Some v \<Rightarrow> Inr (s\<lparr>heap := AList.delete p (heap s)\<rparr>))"

subsection \<open>ModuleJavaScriptMessageSender\<close>

text \<open>\<^verbatim>\<open>SafePostMessage\<close> acquires the lock, posts and releases the lock; run by one thread,
  it appends the message to what was posted.\<close>

definition SafePostMessage :: "js_message \<Rightarrow> 'v state \<Rightarrow> 'v state" where
  "SafePostMessage message s = s\<lparr>posted := posted s @ [message]\<rparr>"

definition SendFileSystemError :: "string \<Rightarrow> string \<Rightarrow> string \<Rightarrow> 'v state \<Rightarrow> 'v state" where
  "SendFileSystemError file_system_id request_id message =
     SafePostMessage (CreateFileSystemError file_system_id request_id message)"

definition SendFileChunkRequest :: "string \<Rightarrow> string \<Rightarrow> 64 word \<Rightarrow> nat \<Rightarrow> 'v state \<Rightarrow> 'v state" where
  "SendFileChunkRequest file_system_id request_id offset bytes_to_read =
     SafePostMessage (CreateReadChunkRequest file_system_id request_id offset bytes_to_read)"

definition SendReadMetadataDone :: "string \<Rightarrow> string \<Rightarrow> pp_var \<Rightarrow> 'v state \<Rightarrow> 'v state" where
  "SendReadMetadataDone file_system_id request_id metadata =
     SafePostMessage (CreateReadMetadataDoneResponse file_system_id request_id metadata)"

definition SendOpenFileDone :: "string \<Rightarrow> string \<Rightarrow> 'v state \<Rightarrow> 'v state" where
  "SendOpenFileDone file_system_id request_id =
     SafePostMessage (CreateOpenFileDoneResponse file_system_id request_id)"

definition SendCloseFileDone :: "string \<Rightarrow> string \<Rightarrow> string \<Rightarrow> 'v state \<Rightarrow> 'v state" where
  "SendCloseFileDone file_system_id request_id open_request_id =
     SafePostMessage (CreateCloseFileDoneResponse file_system_id request_id open_request_id)"

definition SendReadFileDone :: "string \<Rightarrow> string \<Rightarrow> pp_var \<Rightarrow> bool \<Rightarrow> 'v state \<Rightarrow> 'v state" where
  "SendReadFileDone file_system_id request_id array_buffer has_more_data =
     SafePostMessage (CreateReadFileDoneResponse file_system_id request_id array_buffer has_more_data)"

subsection \<open>Calls through a registry entry\<close>

text \<open>
  \<open>call_Volume s p method\<close> is \<^verbatim>\<open>p->method(...)\<close>: the method runs on the object at \<open>p\<close>,
  the object takes its new state and the messages of the call are posted, each through
  \<^verbatim>\<open>SafePostMessage\<close>. A call through an address that holds no object is undefined.
\<close>

definition call_Volume ::
  "'v state \<Rightarrow> nat \<Rightarrow> ('v \<Rightarrow> 'v \<times> js_message list) \<Rightarrow> 'v result" where
  "call_Volume s p method =
     (case map_of (heap s) p of
        None \<Rightarrow> Inl (UndefinedBehaviour, s)
      | Some v \<Rightarrow>
          (case method v of
             (v', out) \<Rightarrow> Inr (fold SafePostMessage out (s\<lparr>heap := AList.update p v' (heap s)\<rparr>))))"

text \<open>
  \<open>call_found\<close> is \<^verbatim>\<open>it->second->method(...)\<close> for \<^verbatim>\<open>it = volumes_.find(file_system_id)\<close>:
  dereferencing \<^verbatim>\<open>volumes_.end()\<close> is undefined.
\<close>

definition call_found ::
  "'v state \<Rightarrow> nat option \<Rightarrow> ('v \<Rightarrow> 'v \<times> js_message list) \<Rightarrow> 'v result" where
  "call_found s it method =
     (case it of None \<Rightarrow> Inl (UndefinedBehaviour, s) | Some p \<Rightarrow> call_Volume s p method)"

subsection \<open>NaclArchiveInstance\<close>

definition ReadMetadata ::
  "'v build \<Rightarrow> 'v state \<Rightarrow> pp_var \<Rightarrow> string \<Rightarrow> string \<Rightarrow> 'v result" where
  "ReadMetadata c s var_dict file_system_id request_id =
     PP_DCHECK c s (map_of (volumes s) file_system_id = None)
      (let volume = new_addr (heap s);
           (ok, v) = Volume_Init (vol c) (Volume_new (vol c) file_system_id);
           s1 = s\<lparr>heap := AList.update volume v (heap s)\<rparr>
       in if \<not> ok then
            delete_Volume volume
              (SendFileSystemError file_system_id request_id
                 (''Could not create a volume for: '' @ file_system_id @ ''.'') s1)
          else
            let s2 = s1\<lparr>volumes := AList.update file_system_id volume (volumes s1)\<rparr> in
            PP_DCHECK c s2 (is_string (Get var_dict (kArchiveSize (rq c))))
              (call_Volume s2 volume
                 (\<lambda>v. Volume_ReadMetadata (vol c) v request_id
                        (GetInt64FromString (rq c) var_dict (kArchiveSize (rq c))))))"

definition ReadChunkDone ::
  "'v build \<Rightarrow> 'v state \<Rightarrow> pp_var \<Rightarrow> string \<Rightarrow> string \<Rightarrow> 'v result" where
  "ReadChunkDone c s var_dict file_system_id request_id =
     PP_DCHECK c s (is_array_buffer (Get var_dict (kChunkBuffer (rq c))))
      (let array_buffer = VarArrayBuffer_from (Get var_dict (kChunkBuffer (rq c))) in
       PP_DCHECK c s (is_string (Get var_dict (kOffset (rq c))))
        (let read_offset = GetInt64FromString (rq c) var_dict (kOffset (rq c));
             it = map_of (volumes s) file_system_id
         in if it = None then Inr s
            else call_found s it
                   (\<lambda>v. Volume_ReadChunkDone (vol c) v request_id array_buffer read_offset)))"

definition ReadChunkError ::
  "'v build \<Rightarrow> 'v state \<Rightarrow> string \<Rightarrow> string \<Rightarrow> 'v result" where
  "ReadChunkError c s file_system_id request_id =
     (let it = map_of (volumes s) file_system_id
      in if it = None then Inr s
         else call_found s it (\<lambda>v. Volume_ReadChunkError (vol c) v request_id))"

definition OpenFile ::
  "'v build \<Rightarrow> 'v state \<Rightarrow> pp_var \<Rightarrow> string \<Rightarrow> string \<Rightarrow> 'v result" where
  "OpenFile c s var_dict file_system_id request_id =
     PP_DCHECK c s (is_string (Get var_dict (kFilePath (rq c))))
      (let file_path = AsString (Get var_dict (kFilePath (rq c))) in
       PP_DCHECK c s (is_string (Get var_dict (kArchiveSize (rq c))))
        (let archive_size = GetInt64FromString (rq c) var_dict (kArchiveSize (rq c));
             it = map_of (volumes s) file_system_id
         in PP_DCHECK c s (it \<noteq> None)
              (call_found s it
                 (\<lambda>v. Volume_OpenFile (vol c) v request_id file_path archive_size))))"

definition CloseFile ::
  "'v build \<Rightarrow> 'v state \<Rightarrow> pp_var \<Rightarrow> string \<Rightarrow> string \<Rightarrow> 'v result" where
  "CloseFile c s var_dict file_system_id request_id =
     PP_DCHECK c s (is_string (Get var_dict (kOpenRequestId (rq c))))
      (let open_request_id = AsString (Get var_dict (kOpenRequestId (rq c)));
           it = map_of (volumes s) file_system_id
       in PP_DCHECK c s (it \<noteq> None)
            (call_found s it
               (\<lambda>v. Volume_CloseFile (vol c) v request_id open_request_id)))"

definition ReadFile ::
  "'v build \<Rightarrow> 'v state \<Rightarrow> pp_var \<Rightarrow> string \<Rightarrow> string \<Rightarrow> 'v result" where
  "ReadFile c s var_dict file_system_id request_id =
     PP_DCHECK c s (is_string (Get var_dict (kOpenRequestId (rq c))))
      (PP_DCHECK c s (is_string (Get var_dict (kOffset (rq c))))
        (PP_DCHECK c s (is_int (Get var_dict (kLength (rq c))))
          (PP_DCHECK c s (0 < sint (AsInt (Get var_dict (kLength (rq c)))))
            (let it = map_of (volumes s) file_system_id
             in PP_DCHECK c s (it \<noteq> None)
                  (call_found s it
                     (\<lambda>v. Volume_ReadFile (vol c) v request_id var_dict))))))"

text \<open>The \<^verbatim>\<open>switch\<close>: the first label, in the order of the source, whose value is the
  operation; \<open>None\<close> is \<^verbatim>\<open>default\<close>.\<close>

definition switch_label :: "request_h \<Rightarrow> 32 word \<Rightarrow> Operation option" where
  "switch_label r operation =
     List.find (\<lambda>l. op_code r l = operation)
       [READ_METADATA, READ_CHUNK_DONE, READ_CHUNK_ERROR, OPEN_FILE, CLOSE_FILE,
        READ_FILE, CLOSE_VOLUME]"

text \<open>The body of \<^verbatim>\<open>case request::CLOSE_VOLUME\<close> of \<^verbatim>\<open>HandleMessage\<close>.\<close>

definition CloseVolume :: "'v build \<Rightarrow> 'v state \<Rightarrow> string \<Rightarrow> 'v result" where
  "CloseVolume c s file_system_id =
     (let it = map_of (volumes s) file_system_id
      in PP_DCHECK c s (it \<noteq> None)
           (case it of
              None \<Rightarrow> Inl (UndefinedBehaviour, s)
            | Some p \<Rightarrow>
                (case delete_Volume p s of
                   Inl f \<Rightarrow> Inl f
                 | Inr s1 \<Rightarrow> Inr (s1\<lparr>volumes := AList.delete file_system_id (volumes s1)\<rparr>))))"

definition HandleMessage :: "'v build \<Rightarrow> 'v state \<Rightarrow> pp_var \<Rightarrow> 'v result" where
  "HandleMessage c s var_message =
     PP_DCHECK c s (is_dictionary var_message)
      (let var_dict = VarDictionary_from var_message in
       PP_DCHECK c s (is_int (Get var_dict (kOperation (rq c))))
        (let operation = AsInt (Get var_dict (kOperation (rq c))) in
         PP_DCHECK c s (is_string (Get var_dict (kFileSystemId (rq c))))
          (let file_system_id = AsString (Get var_dict (kFileSystemId (rq c))) in
           PP_DCHECK c s (is_string (Get var_dict (kRequestId (rq c))))
            (let request_id = AsString (Get var_dict (kRequestId (rq c))) in
             case switch_label (rq c) operation of
               Some READ_METADATA \<Rightarrow> ReadMetadata c s var_dict file_system_id request_id
             | Some READ_CHUNK_DONE \<Rightarrow> ReadChunkDone c s var_dict file_system_id request_id
             | Some READ_CHUNK_ERROR \<Rightarrow> ReadChunkError c s file_system_id request_id
             | Some OPEN_FILE \<Rightarrow> OpenFile c s var_dict file_system_id request_id
             | Some CLOSE_FILE \<Rightarrow> CloseFile c s var_dict file_system_id request_id
             | Some READ_FILE \<Rightarrow> ReadFile c s var_dict file_system_id request_id
             | Some CLOSE_VOLUME \<Rightarrow> CloseVolume c s file_system_id
             | None \<Rightarrow> PP_NOTREACHED c s (Inr s)))))"

subsection \<open>Requests, well-formed registries and reachable states\<close>

text \<open>The labels of a \<^verbatim>\<open>switch\<close> have pairwise different values (C++ rejects the program
  otherwise).\<close>

definition labels_distinct :: "request_h \<Rightarrow> bool" where
  "labels_distinct r =
     distinct (map (op_code r)
       [READ_METADATA, READ_CHUNK_DONE, READ_CHUNK_ERROR, OPEN_FILE, CLOSE_FILE,
        READ_FILE, CLOSE_VOLUME])"

text \<open>A message with a well-typed envelope: a dictionary that carries the integer
  \<open>operation\<close>, the file system id and the request id as strings.\<close>

definition envelope :: "request_h \<Rightarrow> pp_var \<Rightarrow> 32 word \<Rightarrow> string \<Rightarrow> string \<Rightarrow> bool" where
  "envelope r m operation file_system_id request_id \<longleftrightarrow>
     is_dictionary m \<and> Get m (kOperation r) = VarInt operation \<and>
     Get m (kFileSystemId r) = VarString file_system_id \<and>
     Get m (kRequestId r) = VarString request_id"

text \<open>How often a key occurs among the entries of the registry.\<close>

definition occurrences :: "string \<Rightarrow> 'v state \<Rightarrow> nat" where
  "occurrences file_system_id s = length (filter (\<lambda>e. fst e = file_system_id) (volumes s))"

text \<open>
  The registry is well formed when no key occurs twice, no two keys share a
  \<^verbatim>\<open>Volume\<close>, and every registered address holds a live \<^verbatim>\<open>Volume\<close>.
\<close>

definition registry_ok :: "'v state \<Rightarrow> bool" where
  "registry_ok s \<longleftrightarrow>
     distinct (map fst (volumes s)) \<and> distinct (map snd (volumes s)) \<and>
     list_all (\<lambda>p. map_of (heap s) p \<noteq> None) (map snd (volumes s))"

definition initial :: "'v state" where
  "initial = \<lparr>volumes = [], heap = [], posted = []\<rparr>"

text \<open>
  The states the instance can be in: it starts with an empty registry; a message that is
  handled without a fault leads to the next state; and between two messages the worker
  threads of the Volumes may change their Volumes' internal state and post messages
  (they have no access to the registry, and they neither create nor delete a Volume).
\<close>

inductive reachable :: "'v build \<Rightarrow> 'v state \<Rightarrow> bool" for c :: "'v build" where
  start: "reachable c initial"
| handled: "reachable c s \<Longrightarrow> HandleMessage c s m = Inr s' \<Longrightarrow> reachable c s'"
| worker: "reachable c s \<Longrightarrow>
           reachable c (s\<lparr>heap := map (\<lambda>(p, v). (p, w p v)) (heap s), posted := posted s @ out\<rparr>)"

subsection \<open>A recording Volume and two builds, for evaluating the handler\<close>

text \<open>
  The fixtures below give the parameters concrete values so that the handler can be run
  on concrete messages: a request.h with short key names and the operation values
  0, 3, 4, 5, 6, 8 and 10; a \<^verbatim>\<open>GetInt64FromString\<close> that reads decimal digits; and a
  Volume that records every call made on it. Its \<^verbatim>\<open>Init\<close> fails for the file system id
  \<open>''bad''\<close> and succeeds for every other.
\<close>

datatype volume_call =
    CalledReadMetadata string "64 word"
  | CalledReadChunkDone string pp_var "64 word"
  | CalledReadChunkError string
  | CalledOpenFile string string "64 word"
  | CalledCloseFile string string
  | CalledReadFile string pp_var

type_synonym recording = "string \<times> volume_call list"

definition decimal :: "string \<Rightarrow> 64 word" where
  "decimal str = fold (\<lambda>ch acc. 10 * acc + (of_char ch - 48)) str 0"

definition test_request_h :: request_h where
  "test_request_h =
     \<lparr>kOperation = ''op'', kFileSystemId = ''fs'', kRequestId = ''rid'',
      kArchiveSize = ''size'', kChunkBuffer = ''buf'', kOffset = ''off'',
      kFilePath = ''path'', kOpenRequestId = ''orid'', kLength = ''len'',
      op_code = (\<lambda>l. case l of READ_METADATA \<Rightarrow> 0 | READ_CHUNK_DONE \<Rightarrow> 3
                   | READ_CHUNK_ERROR \<Rightarrow> 4 | CLOSE_VOLUME \<Rightarrow> 5 | OPEN_FILE \<Rightarrow> 6
                   | CLOSE_FILE \<Rightarrow> 8 | READ_FILE \<Rightarrow> 10),
      GetInt64FromString = (\<lambda>d k. decimal (AsString (Get d k)))\<rparr>"

definition recording_volume :: "recording volume_h" where
  "recording_volume =
     \<lparr>Volume_new = (\<lambda>fsid. (fsid, [])),
      Volume_Init = (\<lambda>v. (fst v \<noteq> ''bad'', v)),
      Volume_ReadMetadata = (\<lambda>v rid size.
         ((fst v, snd v @ [CalledReadMetadata rid size]),
          [CreateReadChunkRequest (fst v) rid 0 (unat size)])),
      Volume_ReadChunkDone = (\<lambda>v rid buf off.
         ((fst v, snd v @ [CalledReadChunkDone rid buf off]), [])),
      Volume_ReadChunkError = (\<lambda>v rid.
         ((fst v, snd v @ [CalledReadChunkError rid]), [])),
      Volume_OpenFile = (\<lambda>v rid path size.
         ((fst v, snd v @ [CalledOpenFile rid path size]),
          [CreateOpenFileDoneResponse (fst v) rid])),
      Volume_CloseFile = (\<lambda>v rid orid.
         ((fst v, snd v @ [CalledCloseFile rid orid]),
          [CreateCloseFileDoneResponse (fst v) rid orid])),
      Volume_ReadFile = (\<lambda>v rid d.
         ((fst v, snd v @ [CalledReadFile rid d]), []))\<rparr>"

definition debug_build :: "recording build" where
  "debug_build = \<lparr>NDEBUG = False, rq = test_request_h, vol = recording_volume\<rparr>"

definition release_build :: "recording build" where
  "release_build = \<lparr>NDEBUG = True, rq = test_request_h, vol = recording_volume\<rparr>"

text \<open>A message of the fixture's request.h: the envelope and further fields.\<close>

definition msg :: "32 word \<Rightarrow> string \<Rightarrow> string \<Rightarrow> (string \<times> pp_var) list \<Rightarrow> pp_var" where
  "msg operation fsid rid extra =
     VarDictionary ([(''op'', VarInt operation), (''fs'', VarString fsid),
                     (''rid'', VarString rid)] @ extra)"

text \<open>The state after the metadata of archive \<open>''a''\<close> (declared size 1000) was
  requested in the initial state.\<close>

definition mounted_a :: "recording state" where
  "mounted_a =
     \<lparr>volumes = [(''a'', 1)],
      heap = [(1, (''a'', [CalledReadMetadata ''r1'' 1000]))],
      posted = [CreateReadChunkRequest ''a'' ''r1'' 0 1000]\<rparr>"

text \<open>The state after archive \<open>''a''\<close> was closed again in \<open>mounted_a\<close>.\<close>

definition unmounted_a :: "recording state" where
  "unmounted_a =
     \<lparr>volumes = [], heap = [], posted = [CreateReadChunkRequest ''a'' ''r1'' 0 1000]\<rparr>"

text \<open>Requests for an archive \<open>''b''\<close> that was never mounted, a read request with a
  chosen length, and a second metadata request for \<open>''a''\<close>.\<close>

definition open_msg :: pp_var where
  "open_msg =
     msg 6 ''b'' ''r3'' [(''path'', VarString ''/x.txt''), (''size'', VarString ''1000'')]"

definition close_msg :: pp_var where
  "close_msg = msg 8 ''b'' ''r4'' [(''orid'', VarString ''r3'')]"

definition read_msg :: "string \<Rightarrow> 32 word \<Rightarrow> pp_var" where
  "read_msg fsid len =
     msg 10 fsid ''r5''
       [(''orid'', VarString ''r3''), (''off'', VarString ''0''), (''len'', VarInt len)]"

definition remount_msg :: pp_var where
  "remount_msg = msg 0 ''a'' ''r6'' [(''size'', VarString ''2000'')]"

text \<open>The state after \<open>read_msg ''a'' len\<close> was forwarded to the Volume of \<open>''a''\<close> in
  \<open>mounted_a\<close>.\<close>

definition read_a :: "32 word \<Rightarrow> recording state" where
  "read_a len =
     \<lparr>volumes = [(''a'', 1)],
      heap = [(1, (''a'', [CalledReadMetadata ''r1'' 1000,
                           CalledReadFile ''r5'' (read_msg ''a'' len)]))],
      posted = [CreateReadChunkRequest ''a'' ''r1'' 0 1000]\<rparr>"

section \<open>Basic facts\<close>

lemma fold_max_ge: "(a::nat) \<le> fold max xs a"
proof (induction xs arbitrary: a)
  case Nil then show ?case by simp
next
  case (Cons x xs)
  have "a \<le> max x a" by simp
  also have "\<dots> \<le> fold max xs (max x a)" by (rule Cons.IH)
  finally show ?case by simp
qed

lemma new_addr_bound: "p \<in> set xs \<Longrightarrow> p \<le> fold max xs (a::nat)"
proof (induction xs arbitrary: a)
  case Nil then show ?case by simp
next
  case (Cons x xs)
  show ?case
  proof (cases "p = x")
    case True
    have "p \<le> max x a" using True by simp
    also have "\<dots> \<le> fold max xs (max x a)" by (rule fold_max_ge)
    finally show ?thesis by simp
  next
    case False
    with Cons show ?thesis by simp
  qed
qed

text \<open>The address \<^verbatim>\<open>new\<close> returns holds no object yet.\<close>

lemma new_addr_fresh: "new_addr h \<notin> fst ` set h"
  using new_addr_bound [of "new_addr h" "map fst h" 0] by (auto simp: new_addr_def)

lemma update_fresh: "k \<notin> fst ` set al \<Longrightarrow> AList.update k v al = al @ [(k, v)]"
  by (induction al) auto

lemma fold_SafePostMessage: "fold SafePostMessage out s = s\<lparr>posted := posted s @ out\<rparr>"
  by (induction out arbitrary: s) (simp_all add: SafePostMessage_def)

subsection \<open>The switch\<close>

lemma switch_label_code:
  "labels_distinct r \<Longrightarrow> switch_label r (op_code r l) = Some l"
  by (cases l) (auto simp: labels_distinct_def switch_label_def)

lemma HandleMessage_envelope:
  assumes "envelope (rq c) m operation fsid rid"
  shows "HandleMessage c s m =
    (case switch_label (rq c) operation of
       Some READ_METADATA \<Rightarrow> ReadMetadata c s m fsid rid
     | Some READ_CHUNK_DONE \<Rightarrow> ReadChunkDone c s m fsid rid
     | Some READ_CHUNK_ERROR \<Rightarrow> ReadChunkError c s fsid rid
     | Some OPEN_FILE \<Rightarrow> OpenFile c s m fsid rid
     | Some CLOSE_FILE \<Rightarrow> CloseFile c s m fsid rid
     | Some READ_FILE \<Rightarrow> ReadFile c s m fsid rid
     | Some CLOSE_VOLUME \<Rightarrow> CloseVolume c s fsid
     | None \<Rightarrow> PP_NOTREACHED c s (Inr s))"
  using assms
  by (simp add: envelope_def HandleMessage_def PP_DCHECK_def VarDictionary_from_def)

text \<open>A message with a well-typed envelope reaches the handler of its operation.\<close>

lemma HandleMessage_label:
  assumes "labels_distinct (rq c)" "envelope (rq c) m (op_code (rq c) l) fsid rid"
  shows "HandleMessage c s m =
    (case l of
       READ_METADATA \<Rightarrow> ReadMetadata c s m fsid rid
     | READ_CHUNK_DONE \<Rightarrow> ReadChunkDone c s m fsid rid
     | READ_CHUNK_ERROR \<Rightarrow> ReadChunkError c s fsid rid
     | OPEN_FILE \<Rightarrow> OpenFile c s m fsid rid
     | CLOSE_FILE \<Rightarrow> CloseFile c s m fsid rid
     | READ_FILE \<Rightarrow> ReadFile c s m fsid rid
     | CLOSE_VOLUME \<Rightarrow> CloseVolume c s fsid)"
  by (simp add: HandleMessage_envelope [OF assms(2)] switch_label_code [OF assms(1)])

subsection \<open>The registry stays well formed\<close>

lemma registry_ok_iff:
  "registry_ok s \<longleftrightarrow>
     distinct (map fst (volumes s)) \<and> distinct (map snd (volumes s)) \<and>
     snd ` set (volumes s) \<subseteq> fst ` set (heap s)"
  by (auto simp: registry_ok_def list_all_iff map_of_eq_None_iff)

lemma call_Volume_Inr:
  assumes "call_Volume s p f = Inr s'"
  shows "volumes s' = volumes s \<and> fst ` set (heap s') = fst ` set (heap s)"
proof (cases "map_of (heap s) p")
  case None
  with assms show ?thesis by (simp add: call_Volume_def)
next
  case (Some v)
  then have "p \<in> fst ` set (heap s)"
    by (metis map_of_eq_None_iff option.distinct(1))
  obtain v' out where m: "f v = (v', out)" by (cases "f v")
  with assms Some have "s' = s\<lparr>heap := AList.update p v' (heap s), posted := posted s @ out\<rparr>"
    by (simp add: call_Volume_def fold_SafePostMessage)
  with \<open>p \<in> fst ` set (heap s)\<close> show ?thesis
    by (simp add: dom_update insert_absorb)
qed

lemma call_found_Inr:
  assumes "call_found s it f = Inr s'"
  shows "volumes s' = volumes s \<and> fst ` set (heap s') = fst ` set (heap s)"
  using assms call_Volume_Inr [of s _ f s']
  by (cases it) (simp_all add: call_found_def)

lemma call_found_registry_ok:
  "call_found s it f = Inr s' \<Longrightarrow> registry_ok s \<Longrightarrow> registry_ok s'"
  using call_found_Inr [of s it f s'] by (simp add: registry_ok_iff)

lemma snd_update_subset:
  "snd ` set (AList.update k v al) \<subseteq> insert v (snd ` set al)"
  by (induction al) auto

lemma distinct_snd_update:
  "distinct (map snd al) \<Longrightarrow> v \<notin> snd ` set al \<Longrightarrow> distinct (map snd (AList.update k v al))"
proof (induction al)
  case Nil then show ?case by simp
next
  case (Cons e al)
  then show ?case
    using snd_update_subset [of k v al] by (cases e) (auto simp: image_iff)
qed

lemma ReadMetadata_registry_ok:
  assumes "ReadMetadata c s d fsid rid = Inr s'" and "registry_ok s"
  shows "registry_ok s'"
proof -
  obtain ok v where init: "Volume_Init (vol c) (Volume_new (vol c) fsid) = (ok, v)"
    by (cases "Volume_Init (vol c) (Volume_new (vol c) fsid)")
  let ?p = "new_addr (heap s)"
  have fresh: "?p \<notin> fst ` set (heap s)" by (rule new_addr_fresh)
  show ?thesis
  proof (cases ok)
    case False
    with assms(1) init have "volumes s' = volumes s \<and> heap s' = heap s"
      using fresh
      by (auto simp: ReadMetadata_def PP_DCHECK_def delete_Volume_def SendFileSystemError_def
          SafePostMessage_def update_conv' delete_update_same Let_def split: if_splits)
    with assms(2) show ?thesis by (simp add: registry_ok_iff)
  next
    case True
    let ?s2 = "s\<lparr>heap := AList.update ?p v (heap s),
                  volumes := AList.update fsid ?p (volumes s)\<rparr>"
    from assms(1) init True obtain f where call: "call_Volume ?s2 ?p f = Inr s'"
      by (auto simp: ReadMetadata_def PP_DCHECK_def Let_def split: if_splits)
    from assms(2) fresh have notin: "?p \<notin> snd ` set (volumes s)"
      by (auto simp: registry_ok_iff)
    have "snd ` set (AList.update fsid ?p (volumes s)) \<subseteq> insert ?p (fst ` set (heap s))"
      using assms(2) snd_update_subset [of fsid ?p "volumes s"]
      by (auto simp: registry_ok_iff)
    then have "registry_ok ?s2"
      using assms(2) notin
      by (simp add: registry_ok_iff distinct_update distinct_snd_update dom_update)
    then show ?thesis
      using call_Volume_Inr [OF call] by (simp add: registry_ok_iff)
  qed
qed

lemma CloseVolume_Inr:
  assumes "CloseVolume c s fsid = Inr s'"
  shows "\<exists>p. map_of (volumes s) fsid = Some p \<and> map_of (heap s) p \<noteq> None \<and>
           s' = s\<lparr>heap := AList.delete p (heap s), volumes := AList.delete fsid (volumes s)\<rparr>"
  using assms
  by (auto simp: CloseVolume_def PP_DCHECK_def delete_Volume_def Let_def
      split: if_splits option.splits)

lemma CloseVolume_registry_ok:
  assumes "CloseVolume c s fsid = Inr s'" and "registry_ok s"
  shows "registry_ok s'"
proof -
  from CloseVolume_Inr [OF assms(1)] obtain p where
    p: "map_of (volumes s) fsid = Some p" and
    after: "s' = s\<lparr>heap := AList.delete p (heap s), volumes := AList.delete fsid (volumes s)\<rparr>"
    by blast
  from assms(2) have d1: "distinct (map fst (volumes s))" and d2: "distinct (map snd (volumes s))"
    and lv: "snd ` set (volumes s) \<subseteq> fst ` set (heap s)"
    by (simp_all add: registry_ok_iff)
  from p have mem: "(fsid, p) \<in> set (volumes s)" by (rule map_of_SomeD)
  have inj: "inj_on snd (set (volumes s))" using d2 by (simp add: distinct_map)
  have "q \<noteq> p \<and> q \<in> fst ` set (heap s)" if "(k, q) \<in> set (AList.delete fsid (volumes s))" for k q
  proof -
    from that have kq: "(k, q) \<in> set (volumes s)" and "k \<noteq> fsid"
      by (auto simp: AList.delete_eq)
    have "q \<noteq> p"
    proof
      assume "q = p"
      with inj_onD [OF inj _ kq mem] have "(k, q) = (fsid, p)" by simp
      with \<open>k \<noteq> fsid\<close> show False by simp
    qed
    with kq lv show ?thesis by force
  qed
  then have "snd ` set (AList.delete fsid (volumes s)) \<subseteq> fst ` set (AList.delete p (heap s))"
    by (force simp: AList.delete_eq)
  moreover have "distinct (map snd (AList.delete fsid (volumes s)))"
    using d2 by (simp add: AList.delete_eq distinct_map_filter)
  ultimately show ?thesis
    using d1 by (simp add: after registry_ok_iff distinct_delete)
qed

lemma HandleMessage_registry_ok:
  assumes "HandleMessage c s m = Inr s'" and "registry_ok s"
  shows "registry_ok s'"
proof -
  let ?d = "VarDictionary_from m"
  let ?fsid = "AsString (Get ?d (kFileSystemId (rq c)))"
  let ?rid = "AsString (Get ?d (kRequestId (rq c)))"
  let ?op = "AsInt (Get ?d (kOperation (rq c)))"
  have eq: "(case switch_label (rq c) ?op of
       Some READ_METADATA \<Rightarrow> ReadMetadata c s ?d ?fsid ?rid
     | Some READ_CHUNK_DONE \<Rightarrow> ReadChunkDone c s ?d ?fsid ?rid
     | Some READ_CHUNK_ERROR \<Rightarrow> ReadChunkError c s ?fsid ?rid
     | Some OPEN_FILE \<Rightarrow> OpenFile c s ?d ?fsid ?rid
     | Some CLOSE_FILE \<Rightarrow> CloseFile c s ?d ?fsid ?rid
     | Some READ_FILE \<Rightarrow> ReadFile c s ?d ?fsid ?rid
     | Some CLOSE_VOLUME \<Rightarrow> CloseVolume c s ?fsid
     | None \<Rightarrow> PP_NOTREACHED c s (Inr s)) = Inr s'"
    using assms(1) by (simp add: HandleMessage_def PP_DCHECK_def Let_def split: if_splits)
  show ?thesis
  proof (cases "switch_label (rq c) ?op")
    case None
    with eq assms(2) show ?thesis
      by (simp add: PP_NOTREACHED_def PP_DCHECK_def split: if_splits)
  next
    case (Some l)
    show ?thesis
    proof (cases l)
      case READ_METADATA
      with eq Some assms(2) show ?thesis by (simp add: ReadMetadata_registry_ok)
    next
      case READ_CHUNK_DONE
      with eq Some assms(2) show ?thesis
        by (auto simp: ReadChunkDone_def PP_DCHECK_def Let_def
            split: if_splits dest: call_found_registry_ok)
    next
      case READ_CHUNK_ERROR
      with eq Some assms(2) show ?thesis
        by (auto simp: ReadChunkError_def Let_def
            split: if_splits dest: call_found_registry_ok)
    next
      case OPEN_FILE
      with eq Some assms(2) show ?thesis
        by (auto simp: OpenFile_def PP_DCHECK_def Let_def
            split: if_splits dest: call_found_registry_ok)
    next
      case CLOSE_FILE
      with eq Some assms(2) show ?thesis
        by (auto simp: CloseFile_def PP_DCHECK_def Let_def
            split: if_splits dest: call_found_registry_ok)
    next
      case READ_FILE
      with eq Some assms(2) show ?thesis
        by (auto simp: ReadFile_def PP_DCHECK_def Let_def
            split: if_splits dest: call_found_registry_ok)
    next
      case CLOSE_VOLUME
      with eq Some assms(2) show ?thesis by (simp add: CloseVolume_registry_ok)
    qed
  qed
qed

lemma reachable_registry_ok: "reachable c s \<Longrightarrow> registry_ok s"
proof (induction rule: reachable.induct)
  case start
  show ?case by (simp add: registry_ok_def initial_def)
next
  case (handled s m s')
  then show ?case by (simp add: HandleMessage_registry_ok)
next
  case (worker s out w)
  have "fst ` set (map (\<lambda>(p, v). (p, w p v)) (heap s)) = fst ` set (heap s)"
    by force
  with worker.IH show ?case by (simp add: registry_ok_iff)
qed

lemma filter_key_absent: "k \<notin> fst ` set al \<Longrightarrow> filter (\<lambda>e. fst e = k) al = []"
  by (induction al) auto

lemma occurrences_le_1:
  "distinct (map fst al) \<Longrightarrow> length (filter (\<lambda>e. fst e = k) al) \<le> 1"
proof (induction al)
  case Nil then show ?case by simp
next
  case (Cons e al)
  show ?case
  proof (cases "fst e = k")
    case True
    with Cons.prems have "k \<notin> fst ` set al" by auto
    then show ?thesis using True by (simp add: filter_key_absent)
  next
    case False
    with Cons show ?thesis by simp
  qed
qed

text \<open>In every reachable state a key occurs at most once in the registry.\<close>

lemma reachable_occurrences: "reachable c s \<Longrightarrow> occurrences k s \<le> 1"
proof -
  assume "reachable c s"
  then have "distinct (map fst (volumes s))"
    using reachable_registry_ok [of c s] by (simp add: registry_ok_def)
  then show ?thesis
    unfolding occurrences_def by (rule occurrences_le_1)
qed

subsection \<open>Closing a volume\<close>

lemma CloseVolume_present:
  assumes "registry_ok s" and "map_of (volumes s) fsid = Some p"
  shows "CloseVolume c s fsid =
     Inr (s\<lparr>heap := AList.delete p (heap s), volumes := AList.delete fsid (volumes s)\<rparr>)"
proof -
  from assms(2) have "(fsid, p) \<in> set (volumes s)" by (rule map_of_SomeD)
  with assms(1) have "p \<in> fst ` set (heap s)" by (force simp: registry_ok_iff)
  then obtain v where "map_of (heap s) p = Some v"
    by (metis map_of_eq_None_iff not_Some_eq)
  with assms(2) show ?thesis
    by (simp add: CloseVolume_def PP_DCHECK_def delete_Volume_def)
qed

lemma CloseVolume_absent:
  assumes "map_of (volumes s) fsid = None"
  shows "CloseVolume c s fsid = Inl (if NDEBUG c then UndefinedBehaviour else AssertionFailed, s)"
  using assms by (simp add: CloseVolume_def PP_DCHECK_def)

text \<open>After a CloseVolume request was handled, its file system id names no Volume.\<close>

lemma CloseVolume_unregisters:
  assumes "labels_distinct (rq c)"
    and "envelope (rq c) m (op_code (rq c) CLOSE_VOLUME) fsid rid"
    and "HandleMessage c s m = Inr s'"
  shows "map_of (volumes s') fsid = None"
  using assms(3) CloseVolume_Inr [of c s fsid s']
  by (auto simp: HandleMessage_label [OF assms(1,2)] delete_conv')

subsection \<open>The fixtures\<close>

lemmas fixture_defs =
  debug_build_def release_build_def test_request_h_def recording_volume_def initial_def
  msg_def decimal_def mounted_a_def labels_distinct_def envelope_def

lemmas handler_defs =
  HandleMessage_def ReadMetadata_def ReadChunkDone_def ReadChunkError_def OpenFile_def
  CloseFile_def ReadFile_def CloseVolume_def switch_label_def PP_DCHECK_def
  PP_NOTREACHED_def call_found_def call_Volume_def delete_Volume_def new_addr_def
  SafePostMessage_def SendFileSystemError_def VarDictionary_from_def
  VarArrayBuffer_from_def Let_def

lemma test_labels_distinct: "labels_distinct test_request_h"
  by (simp add: labels_distinct_def test_request_h_def)

lemma mounted_a_run:
  "HandleMessage debug_build initial (msg 0 ''a'' ''r1'' [(''size'', VarString ''1000'')])
     = Inr mounted_a"
  by (simp add: fixture_defs handler_defs)

text \<open>
  A fault keeps what was done before it. A metadata request without an archive size
  aborts at the \<^verbatim>\<open>PP_DCHECK\<close> that follows the registration of the new Volume, and the
  state of the abort holds that Volume.
\<close>

lemma abort_after_registration:
  "HandleMessage debug_build initial (msg 0 ''a'' ''r1'' []) =
     Inl (AssertionFailed, \<lparr>volumes = [(''a'', 1)], heap = [(1, (''a'', []))], posted = []\<rparr>)"
  by (simp add: fixture_defs handler_defs)

lemma mounted_a_reachable_debug: "reachable debug_build mounted_a"
  by (rule reachable.handled [OF reachable.start mounted_a_run])

lemma mounted_a_run_release:
  "HandleMessage release_build initial (msg 0 ''a'' ''r1'' [(''size'', VarString ''1000'')])
     = Inr mounted_a"
  by (simp add: fixture_defs handler_defs)

lemma mounted_a_reachable_release: "reachable release_build mounted_a"
  by (rule reachable.handled [OF reachable.start mounted_a_run_release])

lemma envelope_msg:
  "envelope test_request_h (msg operation fsid rid extra) operation fsid rid"
  by (simp add: envelope_def msg_def test_request_h_def)

lemma rq_builds [simp]: "rq debug_build = test_request_h" "rq release_build = test_request_h"
  by (simp_all add: debug_build_def release_build_def)

lemma op_code_test [simp]:
  "op_code test_request_h READ_METADATA = 0"
  "op_code test_request_h READ_CHUNK_DONE = 3"
  "op_code test_request_h READ_CHUNK_ERROR = 4"
  "op_code test_request_h CLOSE_VOLUME = 5"
  "op_code test_request_h OPEN_FILE = 6"
  "op_code test_request_h CLOSE_FILE = 8"
  "op_code test_request_h READ_FILE = 10"
  by (simp_all add: test_request_h_def)

section \<open>The claims\<close>

subsection \<open>Chunk events for a volume that was closed\<close>

text \<open>
  C1. For every ChunkDone or ChunkError event whose file system id names no registered
  Volume (the state after a CloseVolume for that id, see \<open>CloseVolume_unregisters\<close>), the
  event is ignored: the handler returns in the state it started in, so nothing is posted,
  no error is reported, and neither the registry nor a Volume changes. A ChunkDone event
  carries its chunk buffer and its offset; a build with assertions checks their kinds
  before it looks the Volume up.
\<close>

theorem chunk_after_unmount_ignored:
  assumes "labels_distinct (rq c)"
    and "envelope (rq c) m (op_code (rq c) l) fsid rid"
    and "l = READ_CHUNK_DONE \<or> l = READ_CHUNK_ERROR"
    and "map_of (volumes s) fsid = None"
    and "l = READ_CHUNK_DONE \<longrightarrow> NDEBUG c \<or>
           is_array_buffer (Get m (kChunkBuffer (rq c))) \<and> is_string (Get m (kOffset (rq c)))"
  shows "HandleMessage c s m = Inr s"
  using assms(3-5)
  by (auto simp: HandleMessage_label [OF assms(1,2)] ReadChunkDone_def ReadChunkError_def
      PP_DCHECK_def Let_def)

theorem chunk_after_unmount_ignored_witness:
  "HandleMessage debug_build unmounted_a
     (msg 3 ''a'' ''r1'' [(''buf'', VarArrayBuffer [80, 75]), (''off'', VarString ''978'')])
     = Inr unmounted_a \<and>
   HandleMessage debug_build unmounted_a (msg 4 ''a'' ''r1'' []) = Inr unmounted_a"
proof -
  have gone: "map_of (volumes unmounted_a) ''a'' = None"
    by (simp add: unmounted_a_def)
  have h_done: "HandleMessage debug_build unmounted_a
       (msg 3 ''a'' ''r1'' [(''buf'', VarArrayBuffer [80, 75]), (''off'', VarString ''978'')])
       = Inr unmounted_a"
    by (rule chunk_after_unmount_ignored
          [where l = READ_CHUNK_DONE and fsid = "''a''" and rid = "''r1''"])
      (simp_all add: test_labels_distinct envelope_msg gone,
       simp add: msg_def test_request_h_def)
  have h_err: "HandleMessage debug_build unmounted_a (msg 4 ''a'' ''r1'' []) = Inr unmounted_a"
    by (rule chunk_after_unmount_ignored
          [where l = READ_CHUNK_ERROR and fsid = "''a''" and rid = "''r1''"])
      (simp_all add: test_labels_distinct envelope_msg gone)
  from h_done h_err show ?thesis by simp
qed

subsection \<open>A second metadata request\<close>

text \<open>
  C2, as the code has it. For every ReadMetadata request whose file system id already
  names a registered Volume, a build with assertions stops at
  \<^verbatim>\<open>PP_DCHECK(volumes_.find(file_system_id) == volumes_.end())\<close>: the duplicate is
  rejected by an assertion failure, and the state in which the handler aborts is the
  state in which it started. So no Volume was created, no message (an error for the
  request id or any other) was posted, and the existing Volume and the registry are as
  they were.
\<close>

theorem ReadMetadata_registered:
  assumes "labels_distinct (rq c)"
    and "envelope (rq c) m (op_code (rq c) READ_METADATA) fsid rid"
    and "map_of (volumes s) fsid = Some p"
    and "\<not> NDEBUG c"
  shows "HandleMessage c s m = Inl (AssertionFailed, s)"
  using assms(3,4)
  by (simp add: HandleMessage_label [OF assms(1,2)] ReadMetadata_def PP_DCHECK_def)

theorem ReadMetadata_registered_witness:
  "HandleMessage debug_build mounted_a remount_msg = Inl (AssertionFailed, mounted_a)"
  using ReadMetadata_registered [of debug_build remount_msg "''a''" "''r6''" mounted_a 1]
    envelope_msg [of 0 "''a''" "''r6''" "[(''size'', VarString ''2000'')]"]
  by (simp add: test_labels_distinct remount_msg_def)
    (simp add: mounted_a_def debug_build_def)

text \<open>
  The claim as the spec states it (an InconsistentState error is reported to the request
  id, and the existing Volume and the registry stay as they are) fails on a second
  metadata request for the mounted archive \<open>''a''\<close>: with assertions the handler aborts
  and reports nothing; without them it reports no error either, creates a second Volume
  and stores it under \<open>''a''\<close>, where the first Volume (at address 1) stays allocated.
\<close>

theorem ReadMetadata_registered_counterexample:
  "map_of (volumes mounted_a) ''a'' = Some 1 \<and>
   HandleMessage debug_build mounted_a remount_msg = Inl (AssertionFailed, mounted_a) \<and>
   HandleMessage release_build mounted_a remount_msg =
     Inr \<lparr>volumes = [(''a'', 2)],
          heap = [(1, (''a'', [CalledReadMetadata ''r1'' 1000])),
                  (2, (''a'', [CalledReadMetadata ''r6'' 2000]))],
          posted = [CreateReadChunkRequest ''a'' ''r1'' 0 1000,
                    CreateReadChunkRequest ''a'' ''r6'' 0 2000]\<rparr>"
  by (simp add: fixture_defs handler_defs remount_msg_def)

subsection \<open>File operations on a volume that is not registered\<close>

text \<open>
  C3, as the code has it. For every OpenFile, CloseFile or ReadFile request whose file
  system id is not in the registry, the handler reports no error to the request id: a
  build with assertions aborts at a \<^verbatim>\<open>PP_DCHECK\<close> (at the latest at
  \<^verbatim>\<open>PP_DCHECK(it != volumes_.end())\<close>), and a build without assertions reaches the call
  of the Volume through \<^verbatim>\<open>volumes_.end()\<close>, which is undefined behaviour. In both builds
  the state at that point is the state in which the handler started: nothing was posted,
  and neither the registry nor a Volume was changed.
\<close>

theorem file_operation_unknown_volume:
  assumes "labels_distinct (rq c)"
    and "envelope (rq c) m (op_code (rq c) l) fsid rid"
    and "l = OPEN_FILE \<or> l = CLOSE_FILE \<or> l = READ_FILE"
    and "map_of (volumes s) fsid = None"
  shows "HandleMessage c s m =
           Inl (if NDEBUG c then UndefinedBehaviour else AssertionFailed, s)"
  using assms(3,4)
  by (auto simp: HandleMessage_label [OF assms(1,2)] OpenFile_def CloseFile_def ReadFile_def
      PP_DCHECK_def call_found_def Let_def)

theorem file_operation_unknown_volume_witness:
  "HandleMessage debug_build mounted_a open_msg = Inl (AssertionFailed, mounted_a) \<and>
   HandleMessage debug_build mounted_a close_msg = Inl (AssertionFailed, mounted_a) \<and>
   HandleMessage debug_build mounted_a (read_msg ''b'' 16) = Inl (AssertionFailed, mounted_a) \<and>
   HandleMessage release_build mounted_a open_msg = Inl (UndefinedBehaviour, mounted_a)"
proof -
  have absent: "map_of (volumes mounted_a) ''b'' = None" by (simp add: mounted_a_def)
  have e1: "envelope test_request_h open_msg 6 ''b'' ''r3''"
    and e2: "envelope test_request_h close_msg 8 ''b'' ''r4''"
    and e3: "envelope test_request_h (read_msg ''b'' 16) 10 ''b'' ''r5''"
    by (simp_all add: open_msg_def close_msg_def read_msg_def envelope_msg)
  show ?thesis
    using
      file_operation_unknown_volume
        [of debug_build open_msg OPEN_FILE "''b''" "''r3''" mounted_a]
      file_operation_unknown_volume
        [of debug_build close_msg CLOSE_FILE "''b''" "''r4''" mounted_a]
      file_operation_unknown_volume
        [of debug_build "read_msg ''b'' 16" READ_FILE "''b''" "''r5''" mounted_a]
      file_operation_unknown_volume
        [of release_build open_msg OPEN_FILE "''b''" "''r3''" mounted_a]
      absent e1 e2 e3
    by (simp add: test_labels_distinct) (simp add: debug_build_def release_build_def)
qed

text \<open>
  The claim as the spec states it (an UnknownVolume error is reported to the request id
  and the process stays serviceable) fails for the three requests on the archive \<open>''b''\<close>,
  which is not registered: the handler aborts at an assertion, and nothing is reported.
\<close>

theorem file_operation_unknown_volume_counterexample:
  "map_of (volumes mounted_a) ''b'' = None \<and>
   HandleMessage debug_build mounted_a open_msg = Inl (AssertionFailed, mounted_a) \<and>
   HandleMessage debug_build mounted_a close_msg = Inl (AssertionFailed, mounted_a) \<and>
   HandleMessage debug_build mounted_a (read_msg ''b'' 16) = Inl (AssertionFailed, mounted_a)"
  by (simp add: fixture_defs handler_defs open_msg_def close_msg_def read_msg_def)

subsection \<open>Closing a volume that is not registered\<close>

text \<open>
  C4, as the code has it. For every CloseVolume request whose file system id is absent
  from the registry, no UnknownVolume error is produced: a build with assertions aborts
  at \<^verbatim>\<open>PP_DCHECK(it != volumes_.end())\<close>, and a build without assertions reaches the
  \<^verbatim>\<open>delete\<close> through \<^verbatim>\<open>volumes_.end()\<close>, which is undefined behaviour. In both builds the
  state at that point is the state in which the handler started: nothing was posted and
  the registry was not changed. When the id is present, the Volume is deleted and the
  entry is removed.
\<close>

theorem CloseVolume_cases:
  assumes "reachable c s"
    and "labels_distinct (rq c)"
    and "envelope (rq c) m (op_code (rq c) CLOSE_VOLUME) fsid rid"
  shows "HandleMessage c s m =
     (case map_of (volumes s) fsid of
        None \<Rightarrow> Inl (if NDEBUG c then UndefinedBehaviour else AssertionFailed, s)
      | Some p \<Rightarrow>
          Inr (s\<lparr>heap := AList.delete p (heap s), volumes := AList.delete fsid (volumes s)\<rparr>))"
  using CloseVolume_present [OF reachable_registry_ok [OF assms(1)], of fsid _ c]
    CloseVolume_absent [of s fsid c]
  by (simp add: HandleMessage_label [OF assms(2,3)] split: option.splits)

theorem CloseVolume_cases_witness:
  "HandleMessage debug_build initial (msg 5 ''a'' ''r2'' []) = Inl (AssertionFailed, initial) \<and>
   HandleMessage release_build initial (msg 5 ''a'' ''r2'' []) =
     Inl (UndefinedBehaviour, initial) \<and>
   HandleMessage release_build mounted_a (msg 5 ''a'' ''r2'' []) = Inr unmounted_a"
  using
    CloseVolume_cases
      [OF reachable.start, of debug_build "msg 5 ''a'' ''r2'' []" "''a''" "''r2''"]
    CloseVolume_cases
      [OF reachable.start, of release_build "msg 5 ''a'' ''r2'' []" "''a''" "''r2''"]
    CloseVolume_cases
      [OF mounted_a_reachable_release, of "msg 5 ''a'' ''r2'' []" "''a''" "''r2''"]
    envelope_msg [of 5 "''a''" "''r2''" "[]"]
  by (simp add: test_labels_distinct)
    (simp add: initial_def mounted_a_def unmounted_a_def debug_build_def release_build_def)

text \<open>
  The claim as the spec states it (an absent id fails with an UnknownVolume error rather
  than crashing) fails for a CloseVolume request in the initial state, where no id is
  registered: the handler aborts at the assertion.
\<close>

theorem CloseVolume_cases_counterexample:
  "map_of (volumes (initial :: recording state)) ''a'' = None \<and>
   HandleMessage debug_build initial (msg 5 ''a'' ''r2'' []) = Inl (AssertionFailed, initial)"
  by (simp add: fixture_defs handler_defs)

subsection \<open>The length of a read\<close>

text \<open>
  C5, as the code has it. For every ReadFile request with a non-positive length field, a
  build with assertions aborts at a \<^verbatim>\<open>PP_DCHECK\<close> (at the latest at
  \<^verbatim>\<open>PP_DCHECK(length > 0)\<close>): the request is rejected by an assertion failure, and the
  state in which the handler aborts is the state in which it started, so no error was
  reported to the request id and nothing was forwarded to a Volume. In such a build only
  requests with an integer length greater than 0 are forwarded to the Volume. A build
  without assertions does not look at the length: it forwards the request to the Volume
  registered under the file system id.
\<close>

theorem ReadFile_length_check:
  assumes "labels_distinct (rq c)"
    and "envelope (rq c) m (op_code (rq c) READ_FILE) fsid rid"
  shows "(\<not> NDEBUG c \<and> \<not> 0 < sint (AsInt (Get m (kLength (rq c)))) \<longrightarrow>
            HandleMessage c s m = Inl (AssertionFailed, s)) \<and>
         (\<not> NDEBUG c \<longrightarrow>
            (\<forall>s'. HandleMessage c s m = Inr s' \<longrightarrow>
               is_int (Get m (kLength (rq c))) \<and> 0 < sint (AsInt (Get m (kLength (rq c)))) \<and>
               call_found s (map_of (volumes s) fsid)
                 (\<lambda>v. Volume_ReadFile (vol c) v rid m) = Inr s')) \<and>
         (NDEBUG c \<longrightarrow>
            HandleMessage c s m =
              call_found s (map_of (volumes s) fsid) (\<lambda>v. Volume_ReadFile (vol c) v rid m))"
  by (auto simp: HandleMessage_label [OF assms] ReadFile_def PP_DCHECK_def Let_def
      split: if_splits)

theorem ReadFile_length_check_witness:
  "HandleMessage debug_build mounted_a (read_msg ''a'' (- 1)) =
     Inl (AssertionFailed, mounted_a) \<and>
   HandleMessage debug_build mounted_a (read_msg ''a'' 16) = Inr (read_a 16) \<and>
   0 < sint (AsInt (Get (read_msg ''a'' 16) ''len'')) \<and>
   HandleMessage release_build mounted_a (read_msg ''a'' (- 1)) = Inr (read_a (- 1))"
proof -
  have e: "envelope test_request_h (read_msg ''a'' len) 10 ''a'' ''r5''" for len
    by (simp add: read_msg_def envelope_msg)
  have neg: "\<not> 0 < sint (AsInt (Get (read_msg ''a'' (- 1)) ''len''))"
    and pos: "0 < sint (AsInt (Get (read_msg ''a'' 16) ''len''))"
    by (simp_all add: read_msg_def msg_def)
  have k: "kLength test_request_h = ''len''" by (simp add: test_request_h_def)
  have fwd: "call_found mounted_a (map_of (volumes mounted_a) ''a'')
       (\<lambda>v. Volume_ReadFile recording_volume v ''r5'' (read_msg ''a'' len)) = Inr (read_a len)"
    for len
    by (simp add: mounted_a_def call_found_def call_Volume_def recording_volume_def read_a_def)
  have run: "HandleMessage debug_build mounted_a (read_msg ''a'' 16) = Inr (read_a 16)"
    by (simp add: fixture_defs handler_defs read_msg_def read_a_def)
  show ?thesis
    using
      ReadFile_length_check [of debug_build "read_msg ''a'' (- 1)" "''a''" "''r5''" mounted_a]
      ReadFile_length_check [of debug_build "read_msg ''a'' 16" "''a''" "''r5''" mounted_a]
      ReadFile_length_check [of release_build "read_msg ''a'' (- 1)" "''a''" "''r5''" mounted_a]
      e neg pos k run fwd
    by (simp add: test_labels_distinct) (simp add: debug_build_def release_build_def)
qed

text \<open>
  The claim as the spec states it (a non-positive length is reported as an error to the
  request id, is not fatal, and only a length greater than 0 reaches the Volume) fails for
  a read of length 0 on the mounted archive \<open>''a''\<close>: with assertions the handler aborts
  and reports nothing; without them the request reaches the Volume.
\<close>

theorem ReadFile_length_check_counterexample:
  "sint (AsInt (Get (read_msg ''a'' 0) ''len'')) = 0 \<and>
   HandleMessage debug_build mounted_a (read_msg ''a'' 0) = Inl (AssertionFailed, mounted_a) \<and>
   HandleMessage release_build mounted_a (read_msg ''a'' 0) = Inr (read_a 0)"
  by (simp add: fixture_defs handler_defs read_msg_def read_a_def fold_SafePostMessage)

subsection \<open>Registering a volume\<close>

text \<open>
  C7. For every ReadMetadata request whose file system id is not yet registered and whose
  Volume initialises, the registry afterwards holds exactly one entry for that id, which
  points to the new Volume, and that Volume's \<^verbatim>\<open>ReadMetadata\<close> was called with the request
  id and with the archive size read from the request: the Volume is in the state that
  call leaves, and the messages of that call are what was posted. In every reachable
  state, before and after, an id occurs at most once in the registry.
\<close>

theorem ReadMetadata_registers:
  assumes "reachable c s"
    and "labels_distinct (rq c)"
    and "envelope (rq c) m (op_code (rq c) READ_METADATA) fsid rid"
    and "map_of (volumes s) fsid = None"
    and "Volume_Init (vol c) (Volume_new (vol c) fsid) = (True, v)"
    and "NDEBUG c \<or> is_string (Get m (kArchiveSize (rq c)))"
    and "Volume_ReadMetadata (vol c) v rid
           (GetInt64FromString (rq c) m (kArchiveSize (rq c))) = (v', out)"
  shows "\<exists>s'. HandleMessage c s m = Inr s' \<and>
           volumes s' = volumes s @ [(fsid, new_addr (heap s))] \<and>
           heap s' = heap s @ [(new_addr (heap s), v')] \<and>
           posted s' = posted s @ out \<and>
           occurrences fsid s' = 1 \<and>
           (\<forall>k. occurrences k s \<le> 1 \<and> occurrences k s' \<le> 1)"
proof -
  let ?p = "new_addr (heap s)"
  let ?s' = "\<lparr>volumes = volumes s @ [(fsid, ?p)], heap = heap s @ [(?p, v')],
              posted = posted s @ out\<rparr>"
  from assms(4) have absent: "fsid \<notin> fst ` set (volumes s)"
    by (simp add: map_of_eq_None_iff)
  have fresh: "?p \<notin> fst ` set (heap s)" by (rule new_addr_fresh)
  have heap': "AList.update ?p v' (heap s) = heap s @ [(?p, v')]"
    using fresh by (rule update_fresh)
  have run: "HandleMessage c s m = Inr ?s'"
    using assms(4-7) absent
    by (auto simp: HandleMessage_label [OF assms(2,3)] ReadMetadata_def PP_DCHECK_def Let_def
        call_Volume_def update_conv' fold_SafePostMessage heap' update_fresh [of fsid])
  then have "reachable c ?s'" using assms(1) by (rule reachable.handled [rotated])
  then have after: "occurrences k ?s' \<le> 1" for k by (rule reachable_occurrences)
  have one: "occurrences fsid ?s' = 1"
    using absent by (simp add: occurrences_def filter_key_absent)
  from run one after reachable_occurrences [OF assms(1)] show ?thesis
    by (intro exI [of _ ?s']) simp
qed

theorem ReadMetadata_registers_witness:
  "HandleMessage debug_build initial (msg 0 ''a'' ''r1'' [(''size'', VarString ''1000'')])
     = Inr mounted_a \<and> occurrences ''a'' mounted_a = 1"
proof -
  let ?m = "msg 0 ''a'' ''r1'' [(''size'', VarString ''1000'')]"
  have size: "GetInt64FromString test_request_h ?m ''size'' = 1000"
    by (simp add: test_request_h_def msg_def decimal_def)
  have k: "kArchiveSize test_request_h = ''size''" by (simp add: test_request_h_def)
  have typed: "is_string (Get ?m ''size'')" by (simp add: msg_def)
  have absent: "map_of (volumes (initial :: recording state)) ''a'' = None"
    by (simp add: initial_def)
  have init: "Volume_Init recording_volume (Volume_new recording_volume ''a'') = (True, (''a'', []))"
    by (simp add: recording_volume_def)
  have call: "Volume_ReadMetadata recording_volume (''a'', []) ''r1'' 1000 =
      ((''a'', [CalledReadMetadata ''r1'' 1000]), [CreateReadChunkRequest ''a'' ''r1'' 0 1000])"
    by (simp add: recording_volume_def)
  have v: "vol debug_build = recording_volume" by (simp add: debug_build_def)
  from ReadMetadata_registers [OF reachable.start, where c = debug_build and m = ?m
      and fsid = "''a''" and rid = "''r1''" and v = "(''a'', [])"
      and v' = "(''a'', [CalledReadMetadata ''r1'' 1000])"
      and out = "[CreateReadChunkRequest ''a'' ''r1'' 0 1000]"]
  obtain s' where "HandleMessage debug_build initial ?m = Inr s'" and "occurrences ''a'' s' = 1"
    using size k typed absent init call v
      envelope_msg [of 0 "''a''" "''r1''" "[(''size'', VarString ''1000'')]"]
    by (auto simp: test_labels_distinct)
  then show ?thesis by (simp add: mounted_a_run)
qed

subsection \<open>Teardown is silent\<close>

text \<open>
  C8. For every CloseVolume request on a registered file system id, the entry is removed
  from the registry and the Volume it pointed to is deleted, and nothing is posted for
  the operation: what was posted before is all that is posted after.
\<close>

theorem CloseVolume_fire_and_forget:
  assumes "reachable c s"
    and "labels_distinct (rq c)"
    and "envelope (rq c) m (op_code (rq c) CLOSE_VOLUME) fsid rid"
    and "map_of (volumes s) fsid = Some p"
  shows "\<exists>s'. HandleMessage c s m = Inr s' \<and>
           volumes s' = AList.delete fsid (volumes s) \<and> map_of (volumes s') fsid = None \<and>
           heap s' = AList.delete p (heap s) \<and> map_of (heap s') p = None \<and>
           posted s' = posted s"
  using CloseVolume_present [OF reachable_registry_ok [OF assms(1)] assms(4), of c]
  by (simp add: HandleMessage_label [OF assms(2,3)] delete_conv')

theorem CloseVolume_fire_and_forget_witness:
  "HandleMessage debug_build mounted_a (msg 5 ''a'' ''r2'' []) = Inr unmounted_a"
proof -
  have "map_of (volumes mounted_a) ''a'' = Some 1" by (simp add: mounted_a_def)
  from CloseVolume_fire_and_forget [OF mounted_a_reachable_debug _ _ this,
      of "msg 5 ''a'' ''r2'' []" "''r2''"]
  obtain s' where "HandleMessage debug_build mounted_a (msg 5 ''a'' ''r2'' []) = Inr s'"
    and "volumes s' = AList.delete ''a'' (volumes mounted_a)"
    and "heap s' = AList.delete 1 (heap mounted_a)"
    and "posted s' = posted mounted_a"
    using envelope_msg [of 5 "''a''" "''r2''" "[]"] by (auto simp: test_labels_distinct)
  then show ?thesis by (simp add: mounted_a_def unmounted_a_def)
qed

subsection \<open>A volume that fails to initialise\<close>

text \<open>
  C9. For every ReadMetadata request whose Volume fails to initialise (\<^verbatim>\<open>Volume::Init\<close>
  returns false), exactly one message is posted, the FileSystemError with the request's
  file system id and request id; the new Volume is deleted, so the heap is as before; and
  the registry is unchanged.
\<close>

theorem ReadMetadata_Init_fails:
  assumes "labels_distinct (rq c)"
    and "envelope (rq c) m (op_code (rq c) READ_METADATA) fsid rid"
    and "NDEBUG c \<or> map_of (volumes s) fsid = None"
    and "Volume_Init (vol c) (Volume_new (vol c) fsid) = (False, v)"
  shows "HandleMessage c s m =
     Inr (s\<lparr>posted := posted s @
            [CreateFileSystemError fsid rid (''Could not create a volume for: '' @ fsid @ ''.'')]\<rparr>)"
proof -
  have "AList.delete (new_addr (heap s)) (AList.update (new_addr (heap s)) v (heap s)) = heap s"
    using new_addr_fresh [of "heap s"] by (simp add: delete_update_same)
  then show ?thesis
    using assms(3,4)
    by (auto simp: HandleMessage_label [OF assms(1,2)] ReadMetadata_def PP_DCHECK_def Let_def
        delete_Volume_def SendFileSystemError_def SafePostMessage_def update_conv')
qed

theorem ReadMetadata_Init_fails_witness:
  "HandleMessage debug_build mounted_a (msg 0 ''bad'' ''r7'' [(''size'', VarString ''10'')]) =
     Inr (mounted_a\<lparr>posted := [CreateReadChunkRequest ''a'' ''r1'' 0 1000,
        CreateFileSystemError ''bad'' ''r7'' ''Could not create a volume for: bad.'']\<rparr>)"
  using ReadMetadata_Init_fails
      [of debug_build "msg 0 ''bad'' ''r7'' [(''size'', VarString ''10'')]"
        "''bad''" "''r7''" mounted_a "(''bad'', [])"]
    envelope_msg [of 0 "''bad''" "''r7''" "[(''size'', VarString ''10'')]"]
  by (simp add: test_labels_distinct)
    (simp add: mounted_a_def debug_build_def recording_volume_def)

subsection \<open>Operations outside the switch\<close>

text \<open>
  C10. For every inbound message whose operation code is none of the seven labels of the
  switch (\<^verbatim>\<open>READ_METADATA\<close>, \<^verbatim>\<open>READ_CHUNK_DONE\<close>, \<^verbatim>\<open>READ_CHUNK_ERROR\<close>, \<^verbatim>\<open>OPEN_FILE\<close>,
  \<^verbatim>\<open>CLOSE_FILE\<close>, \<^verbatim>\<open>READ_FILE\<close>, \<^verbatim>\<open>CLOSE_VOLUME\<close>), \<^verbatim>\<open>HandleMessage\<close> changes neither the
  registry nor a Volume and posts no message: without assertions it returns in the state
  it started in, and with assertions it aborts at an assertion (\<^verbatim>\<open>PP_NOTREACHED\<close>, or
  an earlier \<^verbatim>\<open>PP_DCHECK\<close> on the envelope) in the state it started in.
\<close>

theorem HandleMessage_default:
  assumes "\<forall>l. op_code (rq c) l \<noteq> AsInt (Get (VarDictionary_from m) (kOperation (rq c)))"
  shows "HandleMessage c s m = (if NDEBUG c then Inr s else Inl (AssertionFailed, s))"
proof -
  have "switch_label (rq c) (AsInt (Get (VarDictionary_from m) (kOperation (rq c)))) = None"
    using assms by (simp add: switch_label_def)
  then show ?thesis
    by (simp add: HandleMessage_def PP_DCHECK_def PP_NOTREACHED_def Let_def)
qed

theorem HandleMessage_default_witness:
  "HandleMessage release_build mounted_a (msg 7 ''a'' ''r9'' []) = Inr mounted_a \<and>
   HandleMessage debug_build mounted_a (msg 7 ''a'' ''r9'' []) =
     Inl (AssertionFailed, mounted_a)"
proof -
  have "\<forall>l. op_code test_request_h l \<noteq> 7"
  proof
    fix l show "op_code test_request_h l \<noteq> 7"
      by (cases l) (simp_all add: test_request_h_def)
  qed
  then have h: "\<forall>l. op_code (rq b) l \<noteq>
      AsInt (Get (VarDictionary_from (msg 7 ''a'' ''r9'' [])) (kOperation (rq b)))"
    if "rq b = test_request_h" for b :: "recording build"
    using that by (simp add: msg_def VarDictionary_from_def test_request_h_def)
  show ?thesis
    using HandleMessage_default [OF h, of release_build mounted_a]
      HandleMessage_default [OF h, of debug_build mounted_a]
    by (simp add: release_build_def debug_build_def)
qed

end
